theory Spec2Isabelle
  imports Complex_Main
begin

section \<open>Strings, integers and floating-point values of the Go program\<close>

text \<open>
  A Go string is a sequence of bytes and \<open>len\<close> counts bytes, so a Go string is a
  \<open>string\<close> (a list of 8-bit characters) and \<open>len\<close> is \<open>length\<close>.

  A \<open>float64\<close> is modelled by its value: a finite value is a real number, and the
  three special values are constructors of their own. The arithmetic below writes out
  what IEEE 754 does with the special values and with a zero divisor. Rounding of a
  finite result to 53 bits and the sign of zero are not modelled.
\<close>

datatype float64 = Fin real | PInf | NInf | NaN

fun fadd :: "float64 \<Rightarrow> float64 \<Rightarrow> float64" where
  "fadd (Fin a) (Fin b) = Fin (a + b)"
| "fadd NaN _ = NaN"
| "fadd _ NaN = NaN"
| "fadd PInf NInf = NaN"
| "fadd NInf PInf = NaN"
| "fadd PInf _ = PInf"
| "fadd _ PInf = PInf"
| "fadd NInf _ = NInf"
| "fadd _ NInf = NInf"

fun fneg :: "float64 \<Rightarrow> float64" where
  "fneg (Fin a) = Fin (- a)"
| "fneg PInf = NInf"
| "fneg NInf = PInf"
| "fneg NaN = NaN"

definition fsub :: "float64 \<Rightarrow> float64 \<Rightarrow> float64" where
  "fsub a b = fadd a (fneg b)"

fun fmul :: "float64 \<Rightarrow> float64 \<Rightarrow> float64" where
  "fmul (Fin a) (Fin b) = Fin (a * b)"
| "fmul NaN _ = NaN"
| "fmul _ NaN = NaN"
| "fmul (Fin a) b = (if a = 0 then NaN else if (a < 0) = (b = NInf) then PInf else NInf)"
| "fmul a (Fin b) = (if b = 0 then NaN else if (b < 0) = (a = NInf) then PInf else NInf)"
| "fmul a b = (if a = b then PInf else NInf)"

fun fdiv :: "float64 \<Rightarrow> float64 \<Rightarrow> float64" where
  "fdiv (Fin a) (Fin b) =
     (if b = 0 then (if a = 0 then NaN else if 0 < a then PInf else NInf)
      else Fin (a / b))"
| "fdiv NaN _ = NaN"
| "fdiv _ NaN = NaN"
| "fdiv (Fin a) b = Fin 0"
| "fdiv a (Fin b) = (if (b < 0) = (a = NInf) then PInf else NInf)"
| "fdiv a b = NaN"

fun fgt :: "float64 \<Rightarrow> float64 \<Rightarrow> bool" where
  "fgt (Fin a) (Fin b) = (b < a)"
| "fgt NaN _ = False"
| "fgt _ NaN = False"
| "fgt PInf b = (b \<noteq> PInf)"
| "fgt a NInf = (a \<noteq> NInf)"
| "fgt a b = False"

subsection \<open>Formatting\<close>

definition digit :: "nat \<Rightarrow> char" where
  "digit n = ''0123456789'' ! (n mod 10)"

fun digits :: "nat \<Rightarrow> string" where
  "digits n = (if n < 10 then [digit n] else digits (n div 10) @ [digit n])"

declare digits.simps [simp del]

text \<open>\<open>strconv.Itoa\<close> and the verb \<open>%d\<close>: a minus sign and the decimal digits.\<close>

definition Itoa :: "int \<Rightarrow> string" where
  "Itoa i = (if i < 0 then ''-'' @ digits (nat (- i)) else digits (nat i))"

text \<open>The verb \<open>%010d\<close>: the sign first, then zeros up to a total width of ten.\<close>

definition pad0 :: "nat \<Rightarrow> string \<Rightarrow> string" where
  "pad0 w s = replicate (w - length s) (CHR ''0'') @ s"

definition fmt_010d :: "int \<Rightarrow> string" where
  "fmt_010d i = (if i < 0 then ''-'' @ pad0 9 (digits (nat (- i))) else pad0 10 (digits (nat i)))"

text \<open>
  The verb \<open>%.2f\<close>: the value rounded to two decimals, a tie going to the even
  neighbour; the infinities print as \<open>+Inf\<close> and \<open>-Inf\<close>, not-a-number as \<open>NaN\<close>.
\<close>

definition round_even :: "real \<Rightarrow> int" where
  "round_even t =
     (let f = \<lfloor>t\<rfloor>; r = t - of_int f
      in if r < 1 / 2 then f else if 1 / 2 < r then f + 1
         else if even f then f else f + 1)"

fun fmt_2f :: "float64 \<Rightarrow> string" where
  "fmt_2f (Fin q) =
     (let n = nat (round_even (\<bar>q\<bar> * 100))
      in (if q < 0 then ''-'' else '''') @ digits (n div 100) @ ''.'' @
         [digit (n div 10), digit n])"
| "fmt_2f PInf = ''+Inf''"
| "fmt_2f NInf = ''-Inf''"
| "fmt_2f NaN = ''NaN''"

text \<open>\<open>strings.Join\<close>.\<close>

fun Join :: "string list \<Rightarrow> string \<Rightarrow> string" where
  "Join [] sep = []"
| "Join [x] sep = x"
| "Join (x # y # ys) sep = x @ sep @ Join (y # ys) sep"

text \<open>
  \<open>strings.ReplaceAll\<close> for a pattern of one byte, which is how \<open>escapeText\<close> calls it:
  every occurrence of the byte is replaced, from left to right.
\<close>

fun ReplaceAll :: "string \<Rightarrow> char \<Rightarrow> string \<Rightarrow> string" where
  "ReplaceAll [] old new = []"
| "ReplaceAll (c # cs) old new = (if c = old then new else [c]) @ ReplaceAll cs old new"

section \<open>escapeText\<close>

definition backslash :: char where
  "backslash = CHR 0x5C"

definition escapeText :: "string \<Rightarrow> string" where
  "escapeText text =
     (let text = ReplaceAll text backslash [backslash, backslash];
          text = ReplaceAll text (CHR ''('') [backslash, CHR ''(''];
          text = ReplaceAll text (CHR '')'') [backslash, CHR '')'']
      in text)"

section \<open>The SVG records supplied by the XML decoder\<close>

record Rect =
  rect_X :: float64
  rect_Y :: float64
  rect_Width :: float64
  rect_Height :: float64
  rect_Stroke :: string

record Text =
  text_X :: float64
  text_Y :: float64
  text_Content :: string
  text_Font :: string
  text_Size :: float64

record Path =
  path_D :: string

record Stop =
  stop_Offset :: string
  stop_Color :: string

record Gradient =
  grad_ID :: string
  grad_X1 :: float64
  grad_Y1 :: float64
  grad_X2 :: float64
  grad_Y2 :: float64
  grad_Stops :: "Stop list"

record SVG =
  Width :: string
  Height :: string
  Rects :: "Rect list"
  Texts :: "Text list"
  Paths :: "Path list"
  Gradients :: "Gradient list"

section \<open>The PDF document\<close>

record PDF =
  pages :: "string list"
  pageCount :: int
  content :: "string list"
  pageWidth :: float64
  pageHeight :: float64
  scaleX :: float64
  scaleY :: float64
  currentX :: float64
  currentY :: float64
  columnWidth :: float64
  rowHeight :: float64
  maxColumns :: int
  maxRows :: int
  font :: string
  fontSize :: float64

text \<open>A run-time panic of Go: the only one this program can raise is an index out of range.\<close>

datatype panic = IndexOutOfRange

text \<open>\<open>NewPDF\<close>: the fields the composite literal leaves out are zero.\<close>

definition NewPDF :: "int \<Rightarrow> int \<Rightarrow> string \<Rightarrow> float64 \<Rightarrow> PDF" where
  "NewPDF columns rows fnt fntSize =
     \<lparr> pages = [], pageCount = 0, content = [],
       pageWidth = Fin 595, pageHeight = Fin 842,
       scaleX = Fin 0, scaleY = Fin 0,
       currentX = Fin 0, currentY = Fin 0,
       columnWidth = Fin 150, rowHeight = Fin 50,
       maxColumns = columns, maxRows = rows,
       font = fnt, fontSize = fntSize \<rparr>"

definition AddRow :: "PDF \<Rightarrow> PDF" where
  "AddRow p = (p\<lparr>currentY := fadd (currentY p) (rowHeight p)\<rparr>)\<lparr>currentX := Fin 0\<rparr>"

definition AddColumn :: "PDF \<Rightarrow> PDF" where
  "AddColumn p =
     (let p = p\<lparr>currentX := fadd (currentX p) (columnWidth p)\<rparr>
      in if fgt (fadd (currentX p) (columnWidth p)) (pageWidth p) then AddRow p else p)"

definition ApplyTransformation :: "float64 \<Rightarrow> float64 \<Rightarrow> string \<Rightarrow> float64 \<times> float64" where
  "ApplyTransformation x y transform =
     (if transform = ''rotate'' then (y, fsub (Fin 595) x) else (x, y))"

text \<open>
  \<open>RenderGradient\<close> reads \<open>gradient.Stops[0]\<close> first: on an empty slice the read panics
  and nothing is appended.
\<close>

definition RenderGradient ::
  "Gradient \<Rightarrow> float64 \<Rightarrow> float64 \<Rightarrow> float64 \<Rightarrow> float64 \<Rightarrow> PDF \<Rightarrow> panic + PDF" where
  "RenderGradient gradient x y w h p =
     (case grad_Stops gradient of
        [] \<Rightarrow> Inl IndexOutOfRange
      | stop0 # _ \<Rightarrow>
          (let gradientColor = stop_Color stop0
           in Inr (p\<lparr>content := content p @
                [fmt_2f x @ '' '' @ fmt_2f y @ '' '' @ fmt_2f w @ '' '' @ fmt_2f h @ '' re'',
                 ''0 0 1 RG'',
                 ''S'']\<rparr>)))"

definition newline :: string where
  "newline = [CHR 0x0A]"

definition AddTextWithUnicode :: "float64 \<Rightarrow> float64 \<Rightarrow> string \<Rightarrow> PDF \<Rightarrow> PDF" where
  "AddTextWithUnicode x y txt p =
     (let escapedText = escapeText txt;
          stream = [''BT'',
                    ''/F1 '' @ fmt_2f (fontSize p) @ '' Tf'',
                    fmt_2f x @ '' '' @ fmt_2f y @ '' Td'',
                    ''('' @ escapedText @ '') Tj'',
                    ''ET'']
      in p\<lparr>content := content p @ [Join stream newline]\<rparr>)"

definition AddPage :: "PDF \<Rightarrow> PDF" where
  "AddPage p =
     (let p = p\<lparr>pageCount := pageCount p + 1\<rparr>;
          page = ''Page '' @ Itoa (pageCount p);
          p = p\<lparr>pages := pages p @ [page]\<rparr>
      in p\<lparr>content := content p @ [[]]\<rparr>)"

section \<open>ConvertSVGToPDF\<close>

text \<open>
  \<open>strconv.ParseFloat\<close> on the plain decimal spellings: an optional sign, digits, and
  an optional point followed by digits, with at least one digit in all. On any other
  string the model returns what Go returns for a syntax error: the value 0 and an
  error. Go also accepts an exponent, hexadecimal digits, underscores and the words
  inf and nan; these spellings are not modelled, and nothing below evaluates
  \<open>ParseFloat\<close> on one of them.
\<close>

datatype parse_error = ErrSyntax

definition is_digit :: "char \<Rightarrow> bool" where
  "is_digit c = (c \<in> set ''0123456789'')"

definition dec_value :: "string \<Rightarrow> nat" where
  "dec_value s = foldl (\<lambda>n c. 10 * n + (of_char c - 48)) 0 s"

definition ParseFloat :: "string \<Rightarrow> float64 \<times> parse_error option" where
  "ParseFloat s =
     (let neg = (s \<noteq> [] \<and> hd s = CHR ''-'');
          body = (if s \<noteq> [] \<and> (hd s = CHR ''-'' \<or> hd s = CHR ''+'') then tl s else s);
          ip = takeWhile is_digit body;
          rest = dropWhile is_digit body;
          fp = (if rest \<noteq> [] \<and> hd rest = CHR ''.'' then tl rest else rest)
      in if ip @ fp \<noteq> [] \<and> list_all is_digit fp
         then (Fin ((if neg then - 1 else 1) *
                 (real (dec_value ip) + real (dec_value fp) / 10 ^ length fp)), None)
         else (Fin 0, Some ErrSyntax))"

text \<open>
  The dimensions of the SVG: the defaults, overwritten by the parsed attributes when
  both attributes are non-empty. The error of \<open>ParseFloat\<close> is discarded, its value
  is kept.
\<close>

definition svgDimensions :: "SVG \<Rightarrow> float64 \<times> float64" where
  "svgDimensions svgData =
     (let svgWidth = Fin 400; svgHeight = Fin 150
      in if Width svgData \<noteq> [] \<and> Height svgData \<noteq> []
         then (fst (ParseFloat (Width svgData)), fst (ParseFloat (Height svgData)))
         else (svgWidth, svgHeight))"

text \<open>The loop over the gradients: the first panic ends it.\<close>

fun renderGradients :: "Gradient list \<Rightarrow> PDF \<Rightarrow> panic + PDF" where
  "renderGradients [] p = Inr p"
| "renderGradients (gradient # gs) p =
     (case RenderGradient gradient (Fin 100) (Fin 100) (Fin 200) (Fin 50) p of
        Inl e \<Rightarrow> Inl e
      | Inr p' \<Rightarrow> renderGradients gs p')"

text \<open>The operator lines of one rectangle, appended to the local slice \<open>stream\<close>.\<close>

definition rectLines :: "PDF \<Rightarrow> Rect \<Rightarrow> string list" where
  "rectLines p rect =
     (let x = fmul (rect_X rect) (scaleX p);
          y = fsub (pageHeight p) (fmul (rect_Y rect) (scaleY p));
          w = fmul (rect_Width rect) (scaleX p);
          h = fmul (rect_Height rect) (scaleY p)
      in [fmt_2f x @ '' '' @ fmt_2f y @ '' m'',
          fmt_2f (fadd x w) @ '' '' @ fmt_2f y @ '' l'',
          fmt_2f (fadd x w) @ '' '' @ fmt_2f (fsub y h) @ '' l'',
          fmt_2f x @ '' '' @ fmt_2f (fsub y h) @ '' l'',
          ''h'',
          ''0 0 0 RG'',
          ''S''])"

fun processRects :: "Rect list \<Rightarrow> PDF \<times> string list \<Rightarrow> PDF \<times> string list" where
  "processRects [] (p, stream) = (p, stream)"
| "processRects (rect # rs) (p, stream) =
     (let p = AddColumn p
      in processRects rs (p, stream @ rectLines p rect))"

fun processTexts :: "Text list \<Rightarrow> PDF \<Rightarrow> PDF" where
  "processTexts [] p = p"
| "processTexts (t # ts) p =
     (let p = AddColumn p;
          x = fmul (text_X t) (scaleX p);
          y = fsub (pageHeight p) (fmul (text_Y t) (scaleY p));
          (x, y) = ApplyTransformation x y ''rotate''
      in processTexts ts (AddTextWithUnicode x y (text_Content t) p))"

text \<open>
  The part of \<open>ConvertSVGToPDF\<close> that follows the decoding: scale factors, a new page,
  the gradients, the rectangles into \<open>stream\<close>, the text elements, and \<open>stream\<close> joined
  and appended last.
\<close>

definition convertDecoded :: "SVG \<Rightarrow> PDF \<Rightarrow> panic + PDF" where
  "convertDecoded svgData p =
     (let (svgWidth, svgHeight) = svgDimensions svgData;
          p = p\<lparr>scaleX := fdiv (pageWidth p) svgWidth\<rparr>;
          p = p\<lparr>scaleY := fdiv (pageHeight p) svgHeight\<rparr>;
          p = AddPage p
      in case renderGradients (Gradients svgData) p of
           Inl e \<Rightarrow> Inl e
         | Inr p \<Rightarrow>
             (let (p, stream) = processRects (Rects svgData) (p, []);
                  p = processTexts (Texts svgData) p
              in Inr (p\<lparr>content := content p @ [Join stream newline]\<rparr>)))"

text \<open>
  The file system the program runs in: the files by path, the paths the process may
  neither open nor write, and what was printed on standard output.
\<close>

record world =
  files :: "string \<rightharpoonup> string"
  locked :: "string list"
  stdout :: string

definition os_Open :: "world \<Rightarrow> string \<Rightarrow> string + string" where
  "os_Open w path =
     (if path \<in> set (locked w) then Inl (''open '' @ path @ '': permission denied'')
      else case files w path of
             None \<Rightarrow> Inl (''open '' @ path @ '': no such file or directory'')
           | Some bytes \<Rightarrow> Inr bytes)"

definition os_WriteFile :: "world \<Rightarrow> string \<Rightarrow> string \<Rightarrow> string + world" where
  "os_WriteFile w path bytes =
     (if path \<in> set (locked w) then Inl (''open '' @ path @ '': permission denied'')
      else Inr (w\<lparr>files := (files w)(path \<mapsto> bytes)\<rparr>))"

text \<open>
  \<open>ConvertSVGToPDF\<close>. The XML decoder is a parameter: it maps the bytes of the file to
  the text of its error or to the decoded record. The result is a panic, or the returned
  error (\<open>None\<close> for \<open>nil\<close>) with the document and the file system as the call leaves
  them. The deferred \<open>Close\<close> of the file changes neither.
\<close>

definition ConvertSVGToPDF ::
  "(string \<Rightarrow> string + SVG) \<Rightarrow> string \<Rightarrow> PDF \<Rightarrow> world \<Rightarrow> panic + (string option \<times> PDF \<times> world)" where
  "ConvertSVGToPDF decode svgFilePath p w =
     (case os_Open w svgFilePath of
        Inl err \<Rightarrow> Inr (Some (''error opening SVG file: '' @ err), p, w)
      | Inr svgFile \<Rightarrow>
          (case decode svgFile of
             Inl err \<Rightarrow> Inr (Some (''error decoding SVG: '' @ err), p, w)
           | Inr svgData \<Rightarrow>
               (case convertDecoded svgData p of
                  Inl e \<Rightarrow> Inl e
                | Inr p' \<Rightarrow> Inr (None, p', w))))"

section \<open>Save\<close>

text \<open>
  Indexing and slicing panic out of range. A Go slice expression is checked against
  the capacity; the slices \<open>Save\<close> takes end within the length (lemma
  \<open>Save_xref_no_panic\<close>), so the length is the bound here.
\<close>

definition index :: "'a list \<Rightarrow> int \<Rightarrow> panic + 'a" where
  "index xs i = (if 0 \<le> i \<and> i < int (length xs) then Inr (xs ! nat i) else Inl IndexOutOfRange)"

definition slice :: "'a list \<Rightarrow> int \<Rightarrow> int \<Rightarrow> panic + 'a list" where
  "slice xs lo hi =
     (if 0 \<le> lo \<and> lo \<le> hi \<and> hi \<le> int (length xs)
      then Inr (take (nat (hi - lo)) (drop (nat lo) xs))
      else Inl IndexOutOfRange)"

text \<open>The second header line: a percent sign and four characters, eight bytes in UTF-8.\<close>

definition binaryMarker :: string where
  "binaryMarker = [CHR ''%'', CHR 0xC3, CHR 0xA2, CHR 0xC3, CHR 0xA3, CHR 0xC3, CHR 0x8F,
     CHR 0xC3, CHR 0x93]"

definition headerLines :: "string list" where
  "headerLines = [''%PDF-1.4'', binaryMarker]"

definition catalogLines :: "string list" where
  "catalogLines = [''1 0 obj'', ''<<'', ''/Type /Catalog'', ''/Pages 2 0 R'', ''>>'', ''endobj'']"

text \<open>The loop that fills the Kids array: \<open>for i := 0; i < p.pageCount; i++\<close>.\<close>

definition kidsLines :: "int \<Rightarrow> string list" where
  "kidsLines n = map (\<lambda>i. Itoa (3 + i * 2) @ '' 0 R'') [0..n - 1]"

definition pagesLines :: "PDF \<Rightarrow> string list" where
  "pagesLines p =
     [''2 0 obj'', ''<<'', ''/Type /Pages'', ''/Count '' @ Itoa (pageCount p), ''/Kids [''] @
     kidsLines (pageCount p) @
     ['']'', ''>>'', ''endobj'']"

definition fontLines :: "string list" where
  "fontLines = [''3 0 obj'', ''<<'', ''/Type /Font'', ''/Subtype /Type1'',
     ''/BaseFont /Helvetica'', ''/Name /F1'', ''>>'', ''endobj'']"

definition pageLines :: "PDF \<Rightarrow> int \<Rightarrow> string list" where
  "pageLines p i =
     [Itoa (4 + i * 2) @ '' 0 obj'',
      ''<<'',
      ''/Type /Page'',
      ''/Parent 2 0 R'',
      ''/MediaBox [0 0 '' @ fmt_2f (pageWidth p) @ '' '' @ fmt_2f (pageHeight p) @ '']'',
      ''/Resources <<'',
      ''/Font <<'',
      ''/F1 3 0 R'',
      ''>>'',
      ''>>'',
      ''/Contents '' @ Itoa (5 + i * 2) @ '' 0 R'',
      ''>>'',
      ''endobj'']"

definition streamLines :: "int \<Rightarrow> string \<Rightarrow> string list" where
  "streamLines i contentStream =
     [Itoa (5 + i * 2) @ '' 0 obj'',
      ''<<'',
      ''/Length '' @ Itoa (int (length contentStream)),
      ''>>'',
      ''stream'',
      contentStream,
      ''endstream'',
      ''endobj'']"

text \<open>
  The loop over the pages: each round appends the Page object and the Content-Stream
  object of page \<open>i\<close>, whose body is \<open>p.content[i]\<close>.
\<close>

fun pageObjects :: "PDF \<Rightarrow> int list \<Rightarrow> string list \<Rightarrow> panic + string list" where
  "pageObjects p [] pdfContent = Inr pdfContent"
| "pageObjects p (i # is) pdfContent =
     (let pdfContent = pdfContent @ pageLines p i
      in case index (content p) i of
           Inl e \<Rightarrow> Inl e
         | Inr contentStream \<Rightarrow> pageObjects p is (pdfContent @ streamLines i contentStream))"

definition Save_pdfContent :: "PDF \<Rightarrow> panic + string list" where
  "Save_pdfContent p =
     pageObjects p [0..pageCount p - 1]
       (headerLines @ catalogLines @ pagesLines p @ fontLines)"

text \<open>
  The cross-reference loop, \<open>for i := 1; i <= 4+p.pageCount*2; i++\<close>: each round appends
  one entry with the current \<open>xrefOffset\<close>, then adds to it the length of line \<open>i\<close> of
  \<open>pdfContent\<close> and of one newline.
\<close>

fun xrefLoop :: "string list \<Rightarrow> int list \<Rightarrow> string list \<times> int \<Rightarrow> panic + (string list \<times> int)" where
  "xrefLoop pdfContent [] (xref, xrefOffset) = Inr (xref, xrefOffset)"
| "xrefLoop pdfContent (i # is) (xref, xrefOffset) =
     (let xref = xref @ [fmt_010d xrefOffset @ '' 00000 n '']
      in case slice pdfContent i (i + 1) of
           Inl e \<Rightarrow> Inl e
         | Inr line \<Rightarrow>
             (let section = Join line newline @ newline
              in xrefLoop pdfContent is (xref, xrefOffset + int (length section))))"

definition Save_xref :: "PDF \<Rightarrow> string list \<Rightarrow> panic + (string list \<times> int)" where
  "Save_xref p pdfContent =
     (let xrefOffset = 0;
          xref = [''xref'', ''0 '' @ Itoa (5 + pageCount p * 2 + 1), ''0000000000 65535 f '']
      in case slice pdfContent 0 2 of
           Inl e \<Rightarrow> Inl e
         | Inr header \<Rightarrow>
             xrefLoop pdfContent [1..4 + pageCount p * 2]
               (xref, xrefOffset + int (length (Join header newline)) + 2))"

definition Save_trailer :: "PDF \<Rightarrow> int \<Rightarrow> string list" where
  "Save_trailer p xrefOffset =
     [''trailer'', ''<<'', ''/Size '' @ Itoa (5 + pageCount p * 2 + 1), ''/Root 1 0 R'', ''>>'',
      ''startxref'', Itoa xrefOffset, ''%%EOF'']"

text \<open>The bytes \<open>Save\<close> hands to \<open>os.WriteFile\<close>.\<close>

definition Save_finalContent :: "PDF \<Rightarrow> panic + string" where
  "Save_finalContent p =
     (case Save_pdfContent p of
        Inl e \<Rightarrow> Inl e
      | Inr pdfContent \<Rightarrow>
          (case Save_xref p pdfContent of
             Inl e \<Rightarrow> Inl e
           | Inr (xref, xrefOffset) \<Rightarrow>
               Inr (Join pdfContent newline @ newline @
                    Join xref newline @ newline @
                    Join (Save_trailer p xrefOffset) newline)))"

definition Save :: "PDF \<Rightarrow> string \<Rightarrow> world \<Rightarrow> panic + (string option \<times> world)" where
  "Save p filePath w =
     (case Save_finalContent p of
        Inl e \<Rightarrow> Inl e
      | Inr finalContent \<Rightarrow>
          (case os_WriteFile w filePath finalContent of
             Inl err \<Rightarrow> Inr (Some (''error writing PDF: '' @ err), w)
           | Inr w' \<Rightarrow>
               Inr (None, w'\<lparr>stdout := stdout w' @ ''Successfully generated '' @ filePath @ newline\<rparr>)))"

section \<open>Notions used to state the properties\<close>

text \<open>
  The escaping rule in the words of the specification: each of the three significant
  bytes gets one backslash in front, every other byte stays.
\<close>

definition escapeByte :: "char \<Rightarrow> string" where
  "escapeByte c =
     (if c = backslash \<or> c = CHR ''('' \<or> c = CHR '')'' then [backslash, c] else [c])"

text \<open>
  The parentheses a reader of a PDF literal string sees as unescaped: it reads from the
  left, and a backslash takes the byte after it with it.
\<close>

fun unescapedParens :: "string \<Rightarrow> nat" where
  "unescapedParens [] = 0"
| "unescapedParens [c] = (if c = CHR ''('' \<or> c = CHR '')'' then 1 else 0)"
| "unescapedParens (c # d # cs) =
     (if c = backslash then unescapedParens cs
      else (if c = CHR ''('' \<or> c = CHR '')'' then 1 else 0) + unescapedParens (d # cs))"

text \<open>The bytes \<open>pat\<close> stand in \<open>out\<close> at byte offset \<open>off\<close>.\<close>

definition startsAt :: "string \<Rightarrow> nat \<Rightarrow> string \<Rightarrow> bool" where
  "startsAt out off pat = (take (length pat) (drop off out) = pat)"

text \<open>The cross-reference lines and the final \<open>xrefOffset\<close> that \<open>Save\<close> computes for a document.\<close>

definition Save_xrefTable :: "PDF \<Rightarrow> panic + (string list \<times> int)" where
  "Save_xrefTable p =
     (case Save_pdfContent p of Inl e \<Rightarrow> Inl e | Inr pdfContent \<Rightarrow> Save_xref p pdfContent)"

text \<open>The document with the scale factors \<open>ConvertSVGToPDF\<close> computes for an SVG.\<close>

definition scaled :: "SVG \<Rightarrow> PDF \<Rightarrow> PDF" where
  "scaled svgData p =
     p\<lparr>scaleX := fdiv (pageWidth p) (fst (svgDimensions svgData)),
       scaleY := fdiv (pageHeight p) (snd (svgDimensions svgData))\<rparr>"

text \<open>The three lines \<open>RenderGradient\<close> appends for the fixed sample rectangle.\<close>

definition gradientLines :: "string list" where
  "gradientLines =
     [fmt_2f (Fin 100) @ '' '' @ fmt_2f (Fin 100) @ '' '' @ fmt_2f (Fin 200) @ '' '' @
        fmt_2f (Fin 50) @ '' re'',
      ''0 0 1 RG'',
      ''S'']"

text \<open>
  The text object the text loop appends for one text element: the anchor scaled and
  flipped, then rotated, with the escaped content between \<open>BT\<close> and \<open>ET\<close>.
\<close>

definition textObject :: "PDF \<Rightarrow> Text \<Rightarrow> string" where
  "textObject p t =
     (let x = fmul (text_X t) (scaleX p);
          y = fsub (pageHeight p) (fmul (text_Y t) (scaleY p))
      in Join [''BT'',
               ''/F1 '' @ fmt_2f (fontSize p) @ '' Tf'',
               fmt_2f y @ '' '' @ fmt_2f (fsub (Fin 595) x) @ '' Td'',
               ''('' @ escapeText (text_Content t) @ '') Tj'',
               ''ET''] newline)"

text \<open>Documents and SVG records the properties are evaluated on.\<close>

definition emptyDocument :: PDF where
  "emptyDocument = NewPDF 1 1 ''Helvetica'' (Fin 12)"

definition onePage :: PDF where
  "onePage = AddPage emptyDocument"

definition twoPages :: PDF where
  "twoPages = AddPage (AddPage emptyDocument)"

definition sampleRect :: Rect where
  "sampleRect = \<lparr>rect_X = Fin 0, rect_Y = Fin 0, rect_Width = Fin 100, rect_Height = Fin 50,
     rect_Stroke = ''black''\<rparr>"

definition sampleText :: Text where
  "sampleText = \<lparr>text_X = Fin 10, text_Y = Fin 10, text_Content = ''Hi(there)'',
     text_Font = [], text_Size = Fin 0\<rparr>"

definition rectSVG :: SVG where
  "rectSVG = \<lparr>Width = ''595'', Height = ''842'', Rects = [sampleRect], Texts = [],
     Paths = [], Gradients = []\<rparr>"

definition rectTextSVG :: SVG where
  "rectTextSVG = \<lparr>Width = ''595'', Height = ''842'', Rects = [sampleRect],
     Texts = [sampleText], Paths = [], Gradients = []\<rparr>"

definition gradRectTextSVG :: SVG where
  "gradRectTextSVG = \<lparr>Width = ''595'', Height = ''842'', Rects = [sampleRect],
     Texts = [sampleText], Paths = [],
     Gradients = [\<lparr>grad_ID = ''g'', grad_X1 = Fin 0, grad_Y1 = Fin 0, grad_X2 = Fin 1,
       grad_Y2 = Fin 0, grad_Stops = [\<lparr>stop_Offset = ''0'', stop_Color = ''red''\<rparr>]\<rparr>]\<rparr>"

definition badWidthSVG :: SVG where
  "badWidthSVG = \<lparr>Width = ''abc'', Height = ''150'', Rects = [], Texts = [],
     Paths = [], Gradients = []\<rparr>"

definition noStopSVG :: SVG where
  "noStopSVG = \<lparr>Width = [], Height = [], Rects = [], Texts = [], Paths = [],
     Gradients = [\<lparr>grad_ID = ''g'', grad_X1 = Fin 0, grad_Y1 = Fin 0, grad_X2 = Fin 1,
       grad_Y2 = Fin 0, grad_Stops = []\<rparr>]\<rparr>"

definition emptyWorld :: world where
  "emptyWorld = \<lparr>files = Map.empty, locked = [], stdout = []\<rparr>"

section \<open>Escaping of text\<close>

lemma ReplaceAll_append:
  "ReplaceAll (xs @ ys) old new = ReplaceAll xs old new @ ReplaceAll ys old new"
  by (induction xs) simp_all

lemma escapeText_Nil: "escapeText [] = []"
  by (simp add: escapeText_def)

lemma escapeText_Cons: "escapeText (c # cs) = escapeByte c @ escapeText cs"
  by (simp add: escapeText_def escapeByte_def ReplaceAll_append backslash_def)

lemma escapeText_concat: "escapeText s = concat (map escapeByte s)"
  by (induction s) (simp_all add: escapeText_Nil escapeText_Cons)

lemma unescapedParens_plain:
  "c \<noteq> backslash \<Longrightarrow> c \<noteq> CHR ''('' \<Longrightarrow> c \<noteq> CHR '')'' \<Longrightarrow>
     unescapedParens (c # cs) = unescapedParens cs"
  by (cases cs) simp_all

lemma unescapedParens_escaped: "unescapedParens (concat (map escapeByte s)) = 0"
  by (induction s) (simp_all add: escapeByte_def unescapedParens_plain)

lemma escapeText_plain:
  "backslash \<notin> set s \<Longrightarrow> CHR ''('' \<notin> set s \<Longrightarrow> CHR '')'' \<notin> set s \<Longrightarrow> escapeText s = s"
  by (induction s) (auto simp: escapeText_Nil escapeText_Cons escapeByte_def)

text \<open>
  Claim C8. For every string, \<open>escapeText\<close> replaces the backslash, then the opening
  parenthesis, then the closing parenthesis, each by itself with a backslash in front, in
  that order. The three passes together escape each of these three bytes exactly once and
  no other byte (the backslashes the later passes insert are not escaped again), so the
  result has no unescaped parenthesis; and a string with none of the three bytes is
  returned unchanged.
\<close>

theorem escapeText_spec:
  "escapeText s =
     ReplaceAll (ReplaceAll (ReplaceAll s backslash [backslash, backslash])
       (CHR ''('') [backslash, CHR ''('']) (CHR '')'') [backslash, CHR '')'']
   \<and> escapeText s = concat (map escapeByte s)
   \<and> unescapedParens (escapeText s) = 0
   \<and> (backslash \<notin> set s \<and> CHR ''('' \<notin> set s \<and> CHR '')'' \<notin> set s \<longrightarrow> escapeText s = s)"
  using escapeText_concat [of s] unescapedParens_escaped [of s] escapeText_plain [of s]
  by (simp add: escapeText_def)

theorem escapeText_spec_witness:
  "escapeText ''Hi(there)'' = ''Hi'' @ [backslash] @ ''(there'' @ [backslash] @ '')''
   \<and> unescapedParens (escapeText ''Hi(there)'') = 0
   \<and> escapeText ''plain text'' = ''plain text''"
proof -
  have plain: "backslash \<notin> set ''plain text'' \<and> CHR ''('' \<notin> set ''plain text''
      \<and> CHR '')'' \<notin> set ''plain text''"
    by (simp add: backslash_def)
  from escapeText_spec [of "''plain text''"] plain
  have "escapeText ''plain text'' = ''plain text''"
    by blast
  moreover from escapeText_spec [of "''Hi(there)''"]
  have "escapeText ''Hi(there)'' = concat (map escapeByte ''Hi(there)'')"
    and "unescapedParens (escapeText ''Hi(there)'') = 0"
    by blast+
  ultimately show ?thesis by (simp add: escapeByte_def backslash_def)
qed

section \<open>The named transformation\<close>

text \<open>
  Claim C6. With the name \<open>rotate\<close>, \<open>ApplyTransformation\<close> returns \<open>(y, pageWidth - x)\<close>,
  where \<open>pageWidth\<close> is the page width every document is created with; \<open>(0, 0)\<close> goes to
  \<open>(0, pageWidth)\<close> and \<open>(pageWidth, 0)\<close> to \<open>(0, 0)\<close>; with any other name the point is
  returned unchanged. The function takes no document and returns none: its result
  depends on its three arguments only.
\<close>

theorem ApplyTransformation_spec:
  "ApplyTransformation x y ''rotate'' = (y, fsub (pageWidth (NewPDF columns rows fnt fntSize)) x)
   \<and> ApplyTransformation (Fin 0) (Fin 0) ''rotate''
       = (Fin 0, pageWidth (NewPDF columns rows fnt fntSize))
   \<and> ApplyTransformation (pageWidth (NewPDF columns rows fnt fntSize)) (Fin 0) ''rotate''
       = (Fin 0, Fin 0)
   \<and> (transform \<noteq> ''rotate'' \<longrightarrow> ApplyTransformation x y transform = (x, y))"
  by (simp add: ApplyTransformation_def NewPDF_def fsub_def)

theorem ApplyTransformation_spec_witness:
  "''scale'' \<noteq> ''rotate'' \<and> ApplyTransformation (Fin 3) (Fin 4) ''scale'' = (Fin 3, Fin 4)
   \<and> ApplyTransformation (Fin 3) (Fin 4) ''rotate'' = (Fin 4, Fin 592)"
proof -
  have ne: "''scale'' \<noteq> ''rotate''" by simp
  from ApplyTransformation_spec [of "Fin 3" "Fin 4" 1 1 "''Helvetica''" "Fin 12" "''scale''"] ne
  show ?thesis by (simp add: NewPDF_def fsub_def)
qed

section \<open>Evaluation on concrete inputs\<close>

lemma replicate_numeral: "replicate (numeral k) x = x # replicate (numeral k - 1) x"
  by (simp add: numeral_eq_Suc)

lemmas doc_defs = emptyDocument_def onePage_def twoPages_def NewPDF_def AddPage_def Let_def

lemmas fmt_defs = Itoa_def digits.simps digit_def fmt_010d_def pad0_def round_even_def
  replicate_numeral

lemmas save_defs = Save_pdfContent_def headerLines_def catalogLines_def pagesLines_def
  kidsLines_def fontLines_def pageLines_def streamLines_def index_def slice_def Save_xref_def
  Save_xrefTable_def Save_trailer_def Save_finalContent_def newline_def binaryMarker_def
  upto.simps

lemmas conv_defs = convertDecoded_def svgDimensions_def ParseFloat_def is_digit_def
  dec_value_def AddColumn_def AddRow_def rectLines_def ApplyTransformation_def
  AddTextWithUnicode_def fsub_def escapeText_def backslash_def newline_def

lemmas svg_defs = rectSVG_def rectTextSVG_def badWidthSVG_def noStopSVG_def sampleRect_def
  sampleText_def

lemma ParseFloat_examples:
  "ParseFloat ''595'' = (Fin 595, None)"
  "ParseFloat ''-12.50'' = (Fin (- 25 / 2), None)"
  "ParseFloat ''abc'' = (Fin 0, Some ErrSyntax)"
  "ParseFloat ''100px'' = (Fin 0, Some ErrSyntax)"
  "ParseFloat ''.'' = (Fin 0, Some ErrSyntax)"
  by (simp_all add: ParseFloat_def is_digit_def dec_value_def Let_def)

lemma fmt_2f_examples:
  "fmt_2f (Fin 595) = ''595.00''"
  "fmt_2f (Fin (1 / 8)) = ''0.12''"
  "fmt_2f (Fin (- 3 / 8)) = ''-0.38''"
  by (simp_all add: fmt_defs Let_def)

section \<open>The loops of ConvertSVGToPDF\<close>

lemma RenderGradient_panic_iff:
  "RenderGradient g x y w h p = Inl IndexOutOfRange \<longleftrightarrow> grad_Stops g = []"
  by (simp add: RenderGradient_def split: list.splits)

lemma RenderGradient_returns_iff:
  "(\<exists>p'. RenderGradient g x y w h p = Inr p') \<longleftrightarrow> grad_Stops g \<noteq> []"
  by (simp add: RenderGradient_def split: list.splits)

lemma RenderGradient_sample:
  "grad_Stops g \<noteq> [] \<Longrightarrow>
     RenderGradient g (Fin 100) (Fin 100) (Fin 200) (Fin 50) p
       = Inr (p\<lparr>content := content p @ gradientLines\<rparr>)"
  by (simp add: RenderGradient_def gradientLines_def split: list.splits)

lemma renderGradients_ok:
  "list_all (\<lambda>g. grad_Stops g \<noteq> []) gs \<Longrightarrow>
     renderGradients gs p
       = Inr (p\<lparr>content := content p @ concat (map (\<lambda>g. gradientLines) gs)\<rparr>)"
  by (induction gs arbitrary: p) (simp_all add: RenderGradient_sample)

lemma renderGradients_panic:
  "\<not> list_all (\<lambda>g. grad_Stops g \<noteq> []) gs \<Longrightarrow> renderGradients gs p = Inl IndexOutOfRange"
proof (induction gs arbitrary: p)
  case Nil
  then show ?case by simp
next
  case (Cons g gs)
  show ?case
  proof (cases "grad_Stops g = []")
    case True
    then show ?thesis by (simp add: RenderGradient_def)
  next
    case False
    with Cons show ?thesis by (simp add: RenderGradient_sample)
  qed
qed

text \<open>\<open>AddColumn\<close> moves the layout cursor and touches nothing else.\<close>

lemma AddColumn_cursor: "\<exists>a b. AddColumn p = p\<lparr>currentX := a, currentY := b\<rparr>"
proof (cases "fgt (fadd (fadd (currentX p) (columnWidth p)) (columnWidth p)) (pageWidth p)")
  case True
  then have "AddColumn p = p\<lparr>currentX := Fin 0, currentY := fadd (currentY p) (rowHeight p)\<rparr>"
    by (simp add: AddColumn_def AddRow_def Let_def)
  then show ?thesis by blast
next
  case False
  then have "AddColumn p
      = p\<lparr>currentX := fadd (currentX p) (columnWidth p), currentY := currentY p\<rparr>"
    by (simp add: AddColumn_def AddRow_def Let_def)
  then show ?thesis by blast
qed

lemma rectLines_cursor [simp]: "rectLines (p\<lparr>currentX := a, currentY := b\<rparr>) = rectLines p"
  by (rule ext) (simp add: rectLines_def)

lemma processRects_result:
  "\<exists>a b. processRects rs (p, stream)
     = (p\<lparr>currentX := a, currentY := b\<rparr>, stream @ concat (map (rectLines p) rs))"
proof (induction rs arbitrary: p stream)
  case Nil
  have "p = p\<lparr>currentX := currentX p, currentY := currentY p\<rparr>" by simp
  then show ?case by (metis processRects.simps(1) append_Nil2 concat.simps(1) list.simps(8))
next
  case (Cons r rs)
  obtain a b where ab: "AddColumn p = p\<lparr>currentX := a, currentY := b\<rparr>"
    using AddColumn_cursor by blast
  from Cons [of "p\<lparr>currentX := a, currentY := b\<rparr>" "stream @ rectLines p r"]
  obtain a' b' where
    "processRects rs (p\<lparr>currentX := a, currentY := b\<rparr>, stream @ rectLines p r)
       = (p\<lparr>currentX := a', currentY := b'\<rparr>,
          stream @ rectLines p r @ concat (map (rectLines p) rs))"
    by auto
  with ab show ?case by (auto simp: Let_def)
qed

lemma processTexts_step:
  "\<exists>a b. processTexts (t # ts) p
     = processTexts ts
         (p\<lparr>currentX := a, currentY := b, content := content p @ [textObject p t]\<rparr>)"
proof -
  obtain a b where ab: "AddColumn p = p\<lparr>currentX := a, currentY := b\<rparr>"
    using AddColumn_cursor by blast
  then have "processTexts (t # ts) p
     = processTexts ts
         (p\<lparr>currentX := a, currentY := b, content := content p @ [textObject p t]\<rparr>)"
    by (simp add: Let_def ApplyTransformation_def AddTextWithUnicode_def textObject_def)
  then show ?thesis by blast
qed

lemma textObject_update [simp]:
  "textObject (p\<lparr>currentX := a, currentY := b, content := c\<rparr>) = textObject p"
  by (rule ext) (simp add: textObject_def)

lemma processTexts_result:
  "\<exists>a b. processTexts ts p
     = p\<lparr>currentX := a, currentY := b, content := content p @ map (textObject p) ts\<rparr>"
proof (induction ts arbitrary: p)
  case Nil
  have "p = p\<lparr>currentX := currentX p, currentY := currentY p,
      content := content p @ map (textObject p) []\<rparr>"
    by simp
  then show ?case by (metis processTexts.simps(1))
next
  case (Cons t ts)
  obtain a b where step: "processTexts (t # ts) p
     = processTexts ts
         (p\<lparr>currentX := a, currentY := b, content := content p @ [textObject p t]\<rparr>)"
    using processTexts_step by blast
  from Cons [of "p\<lparr>currentX := a, currentY := b, content := content p @ [textObject p t]\<rparr>"]
  obtain a' b' where
    "processTexts ts (p\<lparr>currentX := a, currentY := b, content := content p @ [textObject p t]\<rparr>)
      = p\<lparr>currentX := a', currentY := b',
           content := content p @ textObject p t # map (textObject p) ts\<rparr>"
    by auto
  with step show ?case by auto
qed

lemma convertDecoded_ok:
  assumes "list_all (\<lambda>g. grad_Stops g \<noteq> []) (Gradients svgData)"
  shows "\<exists>p'. convertDecoded svgData p = Inr p' \<and>
           content p' = content p @ [[]] @
             concat (map (\<lambda>g. gradientLines) (Gradients svgData)) @
             map (textObject (scaled svgData p)) (Texts svgData) @
             [Join (concat (map (rectLines (scaled svgData p)) (Rects svgData))) newline]"
proof -
  define q where "q = scaled svgData p"
  define q1 where "q1 = (AddPage q)\<lparr>content := content (AddPage q) @
      concat (map (\<lambda>g. gradientLines) (Gradients svgData))\<rparr>"
  have g: "renderGradients (Gradients svgData) (AddPage q) = Inr q1"
    unfolding q1_def using assms by (rule renderGradients_ok)
  obtain a b where r: "processRects (Rects svgData) (q1, [])
      = (q1\<lparr>currentX := a, currentY := b\<rparr>, concat (map (rectLines q1) (Rects svgData)))"
    using processRects_result [of "Rects svgData" q1 "[]"] by auto
  define q2 where "q2 = q1\<lparr>currentX := a, currentY := b\<rparr>"
  obtain a' b' where t: "processTexts (Texts svgData) q2
      = q2\<lparr>currentX := a', currentY := b',
            content := content q2 @ map (textObject q2) (Texts svgData)\<rparr>"
    using processTexts_result [of "Texts svgData" q2] by auto
  have same_r: "rectLines q1 = rectLines q"
    by (rule ext) (simp add: q1_def rectLines_def AddPage_def Let_def)
  have same_t: "textObject q2 = textObject q"
    by (rule ext) (simp add: q2_def q1_def textObject_def AddPage_def Let_def)
  have cq: "content q = content p"
    by (simp add: q_def scaled_def)
  have "convertDecoded svgData p
      = Inr ((processTexts (Texts svgData) q2)
          \<lparr>content := content (processTexts (Texts svgData) q2) @
             [Join (concat (map (rectLines q1) (Rects svgData))) newline]\<rparr>)"
    using g r by (simp add: convertDecoded_def q_def scaled_def q2_def Let_def split_beta)
  then show ?thesis
    using t same_r same_t cq
    by (simp add: q2_def q1_def AddPage_def Let_def q_def [symmetric])
qed

lemma convertDecoded_panic_iff:
  "convertDecoded svgData p = Inl IndexOutOfRange
     \<longleftrightarrow> \<not> list_all (\<lambda>g. grad_Stops g \<noteq> []) (Gradients svgData)"
proof
  assume "convertDecoded svgData p = Inl IndexOutOfRange"
  then show "\<not> list_all (\<lambda>g. grad_Stops g \<noteq> []) (Gradients svgData)"
    using convertDecoded_ok [of svgData p] by auto
next
  assume "\<not> list_all (\<lambda>g. grad_Stops g \<noteq> []) (Gradients svgData)"
  then show "convertDecoded svgData p = Inl IndexOutOfRange"
    by (simp add: convertDecoded_def Let_def split_beta renderGradients_panic)
qed

section \<open>Order of the operator sequences\<close>

text \<open>
  Claim C5, as the code has it. \<open>ConvertSVGToPDF\<close> appends the lines of the rectangles
  to a local slice and appends that slice, joined, after the text loop. So for every
  decoded SVG whose gradients all have a stop, the conversion returns, and the content
  of the document grows by: the empty entry of the new page, the lines of the gradients,
  the text objects, and last one entry with the lines of all rectangles; within each
  category the elements are in input order.
\<close>

theorem convertDecoded_order:
  assumes "list_all (\<lambda>g. grad_Stops g \<noteq> []) (Gradients svgData)"
  shows "\<exists>p'. convertDecoded svgData p = Inr p' \<and>
           content p' = content p @ [[]] @
             concat (map (\<lambda>g. gradientLines) (Gradients svgData)) @
             map (textObject (scaled svgData p)) (Texts svgData) @
             [Join (concat (map (rectLines (scaled svgData p)) (Rects svgData))) newline]"
  using assms by (rule convertDecoded_ok)

theorem convertDecoded_order_witness:
  "list_all (\<lambda>g. grad_Stops g \<noteq> []) (Gradients gradRectTextSVG)
   \<and> (\<exists>p'. convertDecoded gradRectTextSVG emptyDocument = Inr p' \<and>
         content p' =
           [[],
            ''100.00 100.00 200.00 50.00 re'', ''0 0 1 RG'', ''S'',
            Join [''BT'', ''/F1 12.00 Tf'', ''832.00 585.00 Td'',
                  ''(Hi'' @ [backslash] @ ''(there'' @ [backslash] @ '')) Tj'', ''ET''] newline,
            Join [''0.00 842.00 m'', ''100.00 842.00 l'', ''100.00 792.00 l'',
                  ''0.00 792.00 l'', ''h'', ''0 0 0 RG'', ''S''] newline])"
proof -
  have h: "list_all (\<lambda>g. grad_Stops g \<noteq> []) (Gradients gradRectTextSVG)"
    by (simp add: gradRectTextSVG_def)
  have g: "gradientLines = [''100.00 100.00 200.00 50.00 re'', ''0 0 1 RG'', ''S'']"
    by (simp add: gradientLines_def fmt_defs Let_def)
  have t: "textObject (scaled gradRectTextSVG emptyDocument) sampleText =
      Join [''BT'', ''/F1 12.00 Tf'', ''832.00 585.00 Td'',
            ''(Hi'' @ [backslash] @ ''(there'' @ [backslash] @ '')) Tj'', ''ET''] newline"
    by (simp add: doc_defs fmt_defs conv_defs gradRectTextSVG_def sampleText_def textObject_def
        scaled_def)
  have r: "rectLines (scaled gradRectTextSVG emptyDocument) sampleRect =
      [''0.00 842.00 m'', ''100.00 842.00 l'', ''100.00 792.00 l'', ''0.00 792.00 l'',
       ''h'', ''0 0 0 RG'', ''S'']"
    by (simp add: doc_defs fmt_defs conv_defs gradRectTextSVG_def sampleRect_def scaled_def)
  have c: "content emptyDocument = []"
    by (simp add: emptyDocument_def NewPDF_def)
  have l: "Gradients gradRectTextSVG \<noteq> [] \<and> length (Gradients gradRectTextSVG) = 1
      \<and> Texts gradRectTextSVG = [sampleText] \<and> Rects gradRectTextSVG = [sampleRect]"
    by (simp add: gradRectTextSVG_def)
  from convertDecoded_order [OF h, of emptyDocument] obtain p' where
    p': "convertDecoded gradRectTextSVG emptyDocument = Inr p'"
      "content p' = content emptyDocument @ [[]] @
         concat (map (\<lambda>g. gradientLines) (Gradients gradRectTextSVG)) @
         map (textObject (scaled gradRectTextSVG emptyDocument)) (Texts gradRectTextSVG) @
         [Join (concat (map (rectLines (scaled gradRectTextSVG emptyDocument))
            (Rects gradRectTextSVG))) newline]"
    by blast
  have "concat (map (\<lambda>g. gradientLines) (Gradients gradRectTextSVG)) = gradientLines"
    by (simp add: gradRectTextSVG_def)
  with p'(2) have "content p' =
      [[]] @ gradientLines @ [textObject (scaled gradRectTextSVG emptyDocument) sampleText] @
      [Join (rectLines (scaled gradRectTextSVG emptyDocument) sampleRect) newline]"
    using l c by simp
  then have "content p' =
           [[],
            ''100.00 100.00 200.00 50.00 re'', ''0 0 1 RG'', ''S'',
            Join [''BT'', ''/F1 12.00 Tf'', ''832.00 585.00 Td'',
                  ''(Hi'' @ [backslash] @ ''(there'' @ [backslash] @ '')) Tj'', ''ET''] newline,
            Join [''0.00 842.00 m'', ''100.00 842.00 l'', ''100.00 792.00 l'',
                  ''0.00 792.00 l'', ''h'', ''0 0 0 RG'', ''S''] newline]"
    unfolding g t r by simp
  with p'(1) h show ?thesis by blast
qed

text \<open>
  The claim as the specification states it, rectangles before text, fails on an SVG
  with one rectangle and one text element: the text object is entry 1 of the content and
  the rectangle path is entry 2.
\<close>

theorem rect_after_text:
  "map_sum id content (convertDecoded rectTextSVG emptyDocument) =
     Inr [[],
          Join [''BT'', ''/F1 12.00 Tf'', ''832.00 585.00 Td'',
                ''(Hi'' @ [backslash] @ ''(there'' @ [backslash] @ '')) Tj'', ''ET''] newline,
          Join [''0.00 842.00 m'', ''100.00 842.00 l'', ''100.00 792.00 l'', ''0.00 792.00 l'',
                ''h'', ''0 0 0 RG'', ''S''] newline]
   \<and> textObject (scaled rectTextSVG emptyDocument) sampleText =
       Join [''BT'', ''/F1 12.00 Tf'', ''832.00 585.00 Td'',
             ''(Hi'' @ [backslash] @ ''(there'' @ [backslash] @ '')) Tj'', ''ET''] newline
   \<and> rectLines (scaled rectTextSVG emptyDocument) sampleRect =
       [''0.00 842.00 m'', ''100.00 842.00 l'', ''100.00 792.00 l'', ''0.00 792.00 l'',
        ''h'', ''0 0 0 RG'', ''S'']"
  by (simp add: doc_defs fmt_defs conv_defs svg_defs textObject_def scaled_def)

section \<open>Gradients without stops\<close>

text \<open>
  Claim C10. \<open>RenderGradient\<close> reads \<open>Stops[0]\<close> unguarded: it panics with an index out
  of range exactly when the gradient has no stop, and returns exactly when it has one.
  Hence the conversion of a decoded SVG panics exactly when one of its gradients has no
  stop, and \<open>ConvertSVGToPDF\<close> panics exactly when the file opens and decodes to such
  an SVG.
\<close>

theorem RenderGradient_empty_stops:
  "(RenderGradient g x y w h p = Inl IndexOutOfRange \<longleftrightarrow> grad_Stops g = [])
   \<and> ((\<exists>p'. RenderGradient g x y w h p = Inr p') \<longleftrightarrow> grad_Stops g \<noteq> [])
   \<and> (convertDecoded svgData p = Inl IndexOutOfRange
        \<longleftrightarrow> \<not> list_all (\<lambda>g. grad_Stops g \<noteq> []) (Gradients svgData))
   \<and> (ConvertSVGToPDF decode svgFilePath p wd = Inl IndexOutOfRange
        \<longleftrightarrow> (\<exists>bytes svg. os_Open wd svgFilePath = Inr bytes \<and> decode bytes = Inr svg
              \<and> \<not> list_all (\<lambda>g. grad_Stops g \<noteq> []) (Gradients svg)))"
proof -
  have "ConvertSVGToPDF decode svgFilePath p wd = Inl IndexOutOfRange
        \<longleftrightarrow> (\<exists>bytes svg. os_Open wd svgFilePath = Inr bytes \<and> decode bytes = Inr svg
              \<and> convertDecoded svg p = Inl IndexOutOfRange)"
    by (auto simp: ConvertSVGToPDF_def split: sum.splits)
  then show ?thesis
    using RenderGradient_panic_iff RenderGradient_returns_iff convertDecoded_panic_iff
    by simp
qed

theorem RenderGradient_empty_stops_witness:
  "RenderGradient (hd (Gradients noStopSVG)) (Fin 100) (Fin 100) (Fin 200) (Fin 50) emptyDocument
     = Inl IndexOutOfRange
   \<and> convertDecoded noStopSVG emptyDocument = Inl IndexOutOfRange
   \<and> ConvertSVGToPDF (\<lambda>bytes. Inr noStopSVG) ''g.svg'' emptyDocument
        (emptyWorld\<lparr>files := [''g.svg'' \<mapsto> ''<svg/>'']\<rparr>) = Inl IndexOutOfRange"
proof -
  have o: "os_Open (emptyWorld\<lparr>files := [''g.svg'' \<mapsto> ''<svg/>'']\<rparr>) ''g.svg'' = Inr ''<svg/>''"
    by (simp add: os_Open_def emptyWorld_def)
  have s: "grad_Stops (hd (Gradients noStopSVG)) = []"
      "\<not> list_all (\<lambda>g. grad_Stops g \<noteq> []) (Gradients noStopSVG)"
    by (simp_all add: noStopSVG_def)
  show ?thesis
    using RenderGradient_empty_stops [of "hd (Gradients noStopSVG)" "Fin 100" "Fin 100"
      "Fin 200" "Fin 50" emptyDocument noStopSVG "\<lambda>bytes. Inr noStopSVG" "''g.svg''"
      "emptyWorld\<lparr>files := [''g.svg'' \<mapsto> ''<svg/>'']\<rparr>"] o s
    by auto
qed

section \<open>Scale factors\<close>

text \<open>What holds of the dimensions: the defaults when an attribute is empty, the parsed
  values when both are given, and the scale factors as the quotients.\<close>

lemma svgDimensions_default:
  "Width svgData = [] \<or> Height svgData = [] \<Longrightarrow> svgDimensions svgData = (Fin 400, Fin 150)"
  by (auto simp: svgDimensions_def)

lemma svgDimensions_parsed:
  "Width svgData \<noteq> [] \<Longrightarrow> Height svgData \<noteq> [] \<Longrightarrow>
     svgDimensions svgData = (fst (ParseFloat (Width svgData)), fst (ParseFloat (Height svgData)))"
  by (simp add: svgDimensions_def)

lemma convertDecoded_scale:
  assumes "convertDecoded svgData p = Inr p'"
  shows "scaleX p' = fdiv (pageWidth p) (fst (svgDimensions svgData))"
    and "scaleY p' = fdiv (pageHeight p) (snd (svgDimensions svgData))"
proof -
  define q where "q = scaled svgData p"
  have all: "list_all (\<lambda>g. grad_Stops g \<noteq> []) (Gradients svgData)"
    using assms convertDecoded_panic_iff [of svgData p] by auto
  define q1 where "q1 = (AddPage q)\<lparr>content := content (AddPage q) @
      concat (map (\<lambda>g. gradientLines) (Gradients svgData))\<rparr>"
  have g: "renderGradients (Gradients svgData) (AddPage q) = Inr q1"
    unfolding q1_def using all by (rule renderGradients_ok)
  obtain a b where r: "processRects (Rects svgData) (q1, [])
      = (q1\<lparr>currentX := a, currentY := b\<rparr>, concat (map (rectLines q1) (Rects svgData)))"
    using processRects_result [of "Rects svgData" q1 "[]"] by auto
  define q2 where "q2 = q1\<lparr>currentX := a, currentY := b\<rparr>"
  obtain a' b' where t: "processTexts (Texts svgData) q2
      = q2\<lparr>currentX := a', currentY := b',
            content := content q2 @ map (textObject q2) (Texts svgData)\<rparr>"
    using processTexts_result [of "Texts svgData" q2] by auto
  have "convertDecoded svgData p
      = Inr ((processTexts (Texts svgData) q2)
          \<lparr>content := content (processTexts (Texts svgData) q2) @
             [Join (concat (map (rectLines q1) (Rects svgData))) newline]\<rparr>)"
    using g r by (simp add: convertDecoded_def q_def scaled_def q2_def Let_def split_beta)
  with assms have p': "p' = (processTexts (Texts svgData) q2)
          \<lparr>content := content (processTexts (Texts svgData) q2) @
             [Join (concat (map (rectLines q1) (Rects svgData))) newline]\<rparr>"
    by simp
  show "scaleX p' = fdiv (pageWidth p) (fst (svgDimensions svgData))"
    unfolding p' t by (simp add: q2_def q1_def q_def scaled_def AddPage_def Let_def)
  show "scaleY p' = fdiv (pageHeight p) (snd (svgDimensions svgData))"
    unfolding p' t by (simp add: q2_def q1_def q_def scaled_def AddPage_def Let_def)
qed

text \<open>
  Claim C7 at a non-numeric width. The SVG declares \<open>width="abc"\<close> and \<open>height="150"\<close>.
  Both attributes are non-empty, so both are parsed; the parse of \<open>abc\<close> fails, its error
  is discarded and its value 0 replaces the default 400. The width is 0, not 400, and
  \<open>scaleX\<close> is the quotient by zero, positive infinity, not \<open>pageWidth / 400\<close>.
\<close>

theorem nonnumeric_width_not_default:
  "svgDimensions badWidthSVG = (Fin 0, Fin 150)
   \<and> map_sum id (\<lambda>p. (scaleX p, scaleY p)) (convertDecoded badWidthSVG emptyDocument)
       = Inr (PInf, Fin (842 / 150))
   \<and> fdiv (pageWidth emptyDocument) (Fin 400) = Fin (595 / 400)"
  by (simp add: doc_defs fmt_defs conv_defs svg_defs)

section \<open>Failures of ConvertSVGToPDF and the single write of Save\<close>

text \<open>
  Claim C9. When the source file cannot be opened, or its bytes cannot be decoded,
  \<open>ConvertSVGToPDF\<close> returns an error whose text names the operation and ends with the
  cause, and leaves the document and the file system as they were. \<open>ConvertSVGToPDF\<close>
  never changes the file system. \<open>Save\<close> changes it in one place only: when it returns
  without error, the file at the given path holds the bytes of the document and every
  other file is as before; when it returns an error, nothing is written.
\<close>

theorem ConvertSVGToPDF_failure:
  "(os_Open w svgFilePath = Inl cause \<longrightarrow>
      ConvertSVGToPDF decode svgFilePath p w
        = Inr (Some (''error opening SVG file: '' @ cause), p, w))
   \<and> (os_Open w svgFilePath = Inr bytes \<and> decode bytes = Inl cause \<longrightarrow>
      ConvertSVGToPDF decode svgFilePath p w
        = Inr (Some (''error decoding SVG: '' @ cause), p, w))
   \<and> (case ConvertSVGToPDF decode svgFilePath p w of
        Inl e \<Rightarrow> True
      | Inr (err, p', w') \<Rightarrow> w' = w)
   \<and> (case Save q filePath w of
        Inl e \<Rightarrow> True
      | Inr (None, w') \<Rightarrow>
          (case Save_finalContent q of
             Inl e \<Rightarrow> False
           | Inr out \<Rightarrow> files w' = (files w)(filePath \<mapsto> out) \<and> locked w' = locked w)
      | Inr (Some msg, w') \<Rightarrow> w' = w)"
  by (simp add: ConvertSVGToPDF_def Save_def os_WriteFile_def split: sum.splits option.splits)

theorem ConvertSVGToPDF_failure_witness:
  "ConvertSVGToPDF (\<lambda>bytes. Inl ''EOF'') ''missing.svg'' emptyDocument emptyWorld
     = Inr (Some ''error opening SVG file: open missing.svg: no such file or directory'',
            emptyDocument, emptyWorld)
   \<and> ConvertSVGToPDF (\<lambda>bytes. Inl ''EOF'') ''empty.svg'' emptyDocument
       (emptyWorld\<lparr>files := [''empty.svg'' \<mapsto> []]\<rparr>)
     = Inr (Some ''error decoding SVG: EOF'', emptyDocument,
            emptyWorld\<lparr>files := [''empty.svg'' \<mapsto> []]\<rparr>)
   \<and> Save emptyDocument ''out.pdf'' (emptyWorld\<lparr>locked := [''out.pdf'']\<rparr>)
     = Inr (Some ''error writing PDF: open out.pdf: permission denied'',
            emptyWorld\<lparr>locked := [''out.pdf'']\<rparr>)
   \<and> map_sum id (\<lambda>(err, w'). (err, files w' ''other.pdf'', map_option length (files w' ''out.pdf'')))
         (Save emptyDocument ''out.pdf'' emptyWorld)
     = Inr (None, None, Some 362)"
proof -
  have o1: "os_Open emptyWorld ''missing.svg'' = Inl ''open missing.svg: no such file or directory''"
    by (simp add: os_Open_def emptyWorld_def)
  have o2: "os_Open (emptyWorld\<lparr>files := [''empty.svg'' \<mapsto> []]\<rparr>) ''empty.svg'' = Inr []
      \<and> (\<lambda>bytes::string. (Inl ''EOF'' :: string + SVG)) [] = Inl ''EOF''"
    by (simp add: os_Open_def emptyWorld_def)
  from ConvertSVGToPDF_failure [of emptyWorld "''missing.svg''"
      "''open missing.svg: no such file or directory''" "\<lambda>bytes. Inl ''EOF''" emptyDocument] o1
  have "ConvertSVGToPDF (\<lambda>bytes. Inl ''EOF'') ''missing.svg'' emptyDocument emptyWorld
     = Inr (Some ''error opening SVG file: open missing.svg: no such file or directory'',
            emptyDocument, emptyWorld)"
    by simp
  moreover
  from ConvertSVGToPDF_failure [of "emptyWorld\<lparr>files := [''empty.svg'' \<mapsto> []]\<rparr>"
      "''empty.svg''" "''EOF''" "\<lambda>bytes. Inl ''EOF''" emptyDocument "[]"] o2
  have "ConvertSVGToPDF (\<lambda>bytes. Inl ''EOF'') ''empty.svg'' emptyDocument
       (emptyWorld\<lparr>files := [''empty.svg'' \<mapsto> []]\<rparr>)
     = Inr (Some ''error decoding SVG: EOF'', emptyDocument,
            emptyWorld\<lparr>files := [''empty.svg'' \<mapsto> []]\<rparr>)"
    by simp
  moreover
  have "\<exists>out. Save_finalContent emptyDocument = Inr out \<and> length out = 362"
    by (simp add: doc_defs fmt_defs save_defs)
  then obtain out where out: "Save_finalContent emptyDocument = Inr out" "length out = 362"
    by blast
  have "Save emptyDocument ''out.pdf'' (emptyWorld\<lparr>locked := [''out.pdf'']\<rparr>)
     = Inr (Some ''error writing PDF: open out.pdf: permission denied'',
            emptyWorld\<lparr>locked := [''out.pdf'']\<rparr>)"
    using out by (simp add: Save_def os_WriteFile_def emptyWorld_def)
  moreover
  have "map_sum id (\<lambda>(err, w'). (err, files w' ''other.pdf'', map_option length (files w' ''out.pdf'')))
         (Save emptyDocument ''out.pdf'' emptyWorld)
     = Inr (None, None, Some 362)"
    using out by (simp add: Save_def os_WriteFile_def emptyWorld_def)
  ultimately show ?thesis by simp
qed

section \<open>Save: when it returns, and how many lines it emits\<close>

lemma xrefLoop_length:
  "xrefLoop c is (xref, off) = Inr (xref', off') \<Longrightarrow> length xref' = length xref + length is"
  by (induction "is" arbitrary: xref off) (auto simp: Let_def split: sum.splits)

lemma xrefLoop_returns:
  "list_all (\<lambda>i. 0 \<le> i \<and> i < int (length c)) is \<Longrightarrow> \<exists>r. xrefLoop c is (xref, off) = Inr r"
  by (induction "is" arbitrary: xref off) (auto simp: Let_def slice_def split: sum.splits)

lemma pageObjects_length:
  "pageObjects p is c = Inr c' \<Longrightarrow> length c' = length c + 21 * length is"
  by (induction "is" arbitrary: c)
    (auto simp: Let_def pageLines_def streamLines_def split: sum.splits)

lemma pageObjects_returns:
  "list_all (\<lambda>i. 0 \<le> i \<and> i < int (length (content p))) is \<Longrightarrow>
     \<exists>c'. pageObjects p is c = Inr c'"
  by (induction "is" arbitrary: c) (auto simp: Let_def index_def split: sum.splits)

lemma Save_pdfContent_length:
  assumes "Save_pdfContent p = Inr c"
  shows "int (length c) = 24 + 22 * int (nat (pageCount p))"
proof -
  have "length c = length (headerLines @ catalogLines @ pagesLines p @ fontLines)
      + 21 * length [0..pageCount p - 1]"
    using assms unfolding Save_pdfContent_def by (rule pageObjects_length)
  then show ?thesis
    by (simp add: headerLines_def catalogLines_def pagesLines_def fontLines_def kidsLines_def)
qed

text \<open>
  The slices of the cross-reference loop end within \<open>pdfContent\<close>, so the loop never
  panics; it appends one line per round, \<open>4 + 2 * pageCount\<close> lines in all after the
  three lines the table starts with.
\<close>

lemma Save_xref_no_panic:
  assumes "Save_pdfContent p = Inr c"
  shows "\<exists>xref off. Save_xref p c = Inr (xref, off) \<and> length xref = 3 + nat (4 + pageCount p * 2)"
proof -
  have len: "int (length c) = 24 + 22 * int (nat (pageCount p))"
    using assms by (rule Save_pdfContent_length)
  then have "list_all (\<lambda>i. 0 \<le> i \<and> i < int (length c)) [1..4 + pageCount p * 2]"
    by (auto simp: list_all_iff)
  then obtain r where r: "xrefLoop c [1..4 + pageCount p * 2]
      ([''xref'', ''0 '' @ Itoa (5 + pageCount p * 2 + 1), ''0000000000 65535 f ''],
       0 + int (length (Join (take 2 c) newline)) + 2) = Inr r"
    using xrefLoop_returns by blast
  obtain xref off where xo: "r = (xref, off)" by (cases r)
  have "length xref = 3 + length [1..4 + pageCount p * 2]"
    using xrefLoop_length [OF r [unfolded xo]] by simp
  moreover have "Save_xref p c = Inr (xref, off)"
    using r xo len by (simp add: Save_xref_def slice_def Let_def)
  ultimately show ?thesis by simp
qed

text \<open>\<open>Save\<close> computes its bytes whenever the content has an entry for every page.\<close>

lemma Save_finalContent_returns:
  assumes "pageCount p \<le> int (length (content p))"
  shows "\<exists>out. Save_finalContent p = Inr out"
proof -
  have "list_all (\<lambda>i. 0 \<le> i \<and> i < int (length (content p))) [0..pageCount p - 1]"
    using assms by (auto simp: list_all_iff)
  then obtain c where c: "Save_pdfContent p = Inr c"
    unfolding Save_pdfContent_def using pageObjects_returns by blast
  with Save_xref_no_panic [OF c] show ?thesis
    by (auto simp: Save_finalContent_def)
qed

text \<open>Entry \<open>i\<close> of the Kids array names object \<open>3 + i * 2\<close>, for every page count.\<close>

lemma kidsLines_nth:
  "0 \<le> i \<Longrightarrow> i < n \<Longrightarrow> kidsLines n ! nat i = Itoa (3 + i * 2) @ '' 0 R''"
  by (simp add: kidsLines_def nth_upto)

section \<open>Object numbers\<close>

text \<open>
  Claim C1 on the document with two pages, \<open>NewPDF\<close> followed by two calls of \<open>AddPage\<close>.
  \<open>Save\<close> numbers the Page objects 4 and 6 and the Content-Stream objects 5 and 7, as
  the claim says, but the Kids array it writes is \<open>3 0 R\<close>, \<open>5 0 R\<close>: the Font object and
  the first Content-Stream object, not the pages 4 and 6.
\<close>

theorem twoPages_kids:
  "kidsLines (pageCount twoPages) = [''3 0 R'', ''5 0 R'']
   \<and> Save_pdfContent twoPages = Inr (headerLines @ catalogLines @
       [''2 0 obj'', ''<<'', ''/Type /Pages'', ''/Count 2'', ''/Kids ['',
        ''3 0 R'', ''5 0 R'', '']'', ''>>'', ''endobj''] @
       fontLines @
       [''4 0 obj'', ''<<'', ''/Type /Page'', ''/Parent 2 0 R'',
        ''/MediaBox [0 0 595.00 842.00]'', ''/Resources <<'', ''/Font <<'', ''/F1 3 0 R'',
        ''>>'', ''>>'', ''/Contents 5 0 R'', ''>>'', ''endobj'',
        ''5 0 obj'', ''<<'', ''/Length 0'', ''>>'', ''stream'', [], ''endstream'', ''endobj'',
        ''6 0 obj'', ''<<'', ''/Type /Page'', ''/Parent 2 0 R'',
        ''/MediaBox [0 0 595.00 842.00]'', ''/Resources <<'', ''/Font <<'', ''/F1 3 0 R'',
        ''>>'', ''>>'', ''/Contents 7 0 R'', ''>>'', ''endobj'',
        ''7 0 obj'', ''<<'', ''/Length 0'', ''>>'', ''stream'', [], ''endstream'', ''endobj''])"
  by (simp add: doc_defs fmt_defs save_defs)

section \<open>Cross-reference table\<close>

text \<open>
  Claim C2 on the document with one page. In the bytes \<open>Save\<close> writes, object 1 begins
  at byte 19 and object 2 at byte 68, and the keyword \<open>xref\<close> stands at byte 388. The
  cross-reference entries of objects 1 and 2 record 20 and 30, where no object begins,
  and the value after \<open>startxref\<close> is 72, where \<open>xref\<close> does not stand: the loop adds up
  the lengths of lines 1 to 6 of the output, not the lengths of the objects.
\<close>

theorem onePage_offsets:
  "map_sum id
     (\<lambda>out. (length out,
        startsAt out 19 ''1 0 obj'', startsAt out 68 ''2 0 obj'', startsAt out 388 ''xref'',
        startsAt out 388 (Join [''xref'', ''0 8'', ''0000000000 65535 f '',
          ''0000000020 00000 n '', ''0000000030 00000 n ''] newline),
        startsAt out 571 (Join [''startxref'', ''72'', ''%%EOF''] newline),
        startsAt out 20 ''1 0 obj'', startsAt out 30 ''2 0 obj'', startsAt out 72 ''xref''))
     (Save_finalContent onePage)
   = Inr (589, True, True, True, True, True, False, False, False)"
  by (simp add: doc_defs fmt_defs save_defs startsAt_def)

text \<open>
  Claim C3 on the document with one page. The table announces 8 entries in its
  subsection header and the trailer gives \<open>/Size 8\<close>, that is \<open>5 + 1 * 2 + 1\<close>; but the
  loop runs from 1 to \<open>4 + 1 * 2\<close>, so with the free-list head the table has 7 entry
  lines. (By \<open>Save_xref_no_panic\<close> the table has \<open>5 + N * 2\<close> entry lines for every
  page count \<open>N\<close>.)
\<close>

theorem onePage_xref_entries:
  "Save_xrefTable onePage =
     Inr ([''xref'', ''0 8'',
           ''0000000000 65535 f '',
           ''0000000020 00000 n '', ''0000000030 00000 n '', ''0000000038 00000 n '',
           ''0000000041 00000 n '', ''0000000056 00000 n '', ''0000000069 00000 n ''], 72)
   \<and> map_sum id (\<lambda>(xref, off). length (drop 2 xref)) (Save_xrefTable onePage) = Inr 7
   \<and> Save_trailer onePage 72 =
       [''trailer'', ''<<'', ''/Size 8'', ''/Root 1 0 R'', ''>>'', ''startxref'', ''72'', ''%%EOF'']"
  by (simp add: doc_defs fmt_defs save_defs)

section \<open>Content streams\<close>

text \<open>
  Claim C4 on an SVG with one rectangle, converted into a new document. The conversion
  leaves two entries in the content: the empty entry of \<open>AddPage\<close> at index 0 and the
  path of the rectangle at index 1. \<open>Save\<close> takes entry 0 as the body of the content
  stream of page 0, so object 5 has an empty body and \<open>/Length 0\<close>: the operators emitted
  for the page are not in the output. (The declared length is the byte length of the
  body that is written.)
\<close>

theorem rectSVG_stream_empty:
  "map_sum id content (convertDecoded rectSVG emptyDocument) =
     Inr [[], Join [''0.00 842.00 m'', ''100.00 842.00 l'', ''100.00 792.00 l'',
                    ''0.00 792.00 l'', ''h'', ''0 0 0 RG'', ''S''] newline]
   \<and> (case convertDecoded rectSVG emptyDocument of
         Inl e \<Rightarrow> Inl e
       | Inr p \<Rightarrow> Save_pdfContent p) =
     Inr (headerLines @ catalogLines @
       [''2 0 obj'', ''<<'', ''/Type /Pages'', ''/Count 1'', ''/Kids ['', ''3 0 R'', '']'',
        ''>>'', ''endobj''] @
       fontLines @
       [''4 0 obj'', ''<<'', ''/Type /Page'', ''/Parent 2 0 R'',
        ''/MediaBox [0 0 595.00 842.00]'', ''/Resources <<'', ''/Font <<'', ''/F1 3 0 R'',
        ''>>'', ''>>'', ''/Contents 5 0 R'', ''>>'', ''endobj'',
        ''5 0 obj'', ''<<'', ''/Length 0'', ''>>'', ''stream'', [], ''endstream'', ''endobj''])"
  by (simp add: doc_defs fmt_defs save_defs conv_defs svg_defs)

end
